theory Spec2Isabelle
  imports Complex_Main "HOL-Library.Multiset"
begin

section \<open>The CombinedGameEvents component\<close>

text \<open>
  A shallow embedding of the React component \<open>CombinedGameEvents\<close>: the record type of one
  game event, the chunked historical scan of \<open>fetchEventsForContract\<close>, the merge of the two
  contracts' results into the component state, the live-subscription handler \<open>handleLog\<close>
  and the two effects that start them. The RPC provider and the ABI decoder are external
  libraries; they are parameters of the model, with every way they can answer (a value,
  \<open>null\<close>, a rejected promise) as a constructor.
\<close>

subsection \<open>Data model\<close>

datatype gameType = dice | coinflip

text \<open>
  The interface \<open>GameEvent\<close>. Block numbers and timestamps are JavaScript numbers holding
  integers, \<open>amount\<close> is a bigint. The fields read through \<open>parsedLog?.args\<close> are \<open>undefined\<close>
  (for \<open>Number(undefined)\<close>: \<open>NaN\<close>) when the decoder returned \<open>null\<close>; that is \<open>None\<close> here.
\<close>

record GameEvent =
  blockNumber :: int
  transactionHash :: string
  player :: "string option"
  amount :: "int option"
  choice :: "int option"
  outcome :: "int option"
  won :: "bool option"
  gameType :: gameType
  timestamp :: int

text \<open>The fields of an \<open>ethers.Log\<close> that the component reads.\<close>

record Log =
  log_blockNumber :: int
  log_transactionHash :: string
  topics :: "string list"
  data :: string

text \<open>The arguments of a decoded \<open>Roll\<close> event, as \<open>ROLL_EVENT_ABI\<close> lists them.\<close>

record RollArgs =
  args_player :: string
  args_amount :: int
  args_choice :: int
  args_outcome :: int
  args_won :: bool

text \<open>\<open>iface.parseLog\<close> throws, or returns \<open>null\<close> (\<open>None\<close>) or a log description.\<close>

datatype parseResult = ParseThrows | ParseReturns "RollArgs option"

record Block =
  block_timestamp :: int

text \<open>\<open>provider.getBlock\<close> rejects, or resolves to \<open>null\<close> or to a block.\<close>

datatype blockResult = BlockThrows | BlockNull | BlockFound Block

text \<open>
  The provider: \<open>getBlockNumber\<close> and \<open>getLogs\<close> answer \<open>None\<close> when the promise rejects;
  \<open>getLogs\<close> takes the contract address, \<open>fromBlock\<close> and \<open>toBlock\<close>. An answer depends on
  the request only: the node is taken not to change while one fetch runs.
\<close>

record provider =
  getBlockNumber :: "int option"
  getLogs :: "string \<Rightarrow> int \<Rightarrow> int \<Rightarrow> Log list option"
  getBlock :: "int \<Rightarrow> blockResult"

text \<open>The three \<open>useState\<close> cells of the component.\<close>

record state =
  events :: "GameEvent list"
  loading :: bool
  error :: "string option"

definition initialState :: state where
  "initialState = \<lparr>events = [], loading = True, error = None\<rparr>"

subsection \<open>Constants\<close>

definition DICE_CONTRACT_ADDRESS :: string where
  "DICE_CONTRACT_ADDRESS = ''0x095b5DB1A520d96BcAc69E2AeD832273A6f08343''"

definition COINFLIP_CONTRACT_ADDRESS :: string where
  "COINFLIP_CONTRACT_ADDRESS = ''0xb7b23027C7E861d59d2f5b2fE8B3E97ECA534c42''"

definition MAX_RESULTS :: nat where
  "MAX_RESULTS = 12"

definition TOTAL_BLOCKS_TO_CHECK :: int where
  "TOTAL_BLOCKS_TO_CHECK = 2000"

definition MAX_CHUNK_SIZE :: int where
  "MAX_CHUNK_SIZE = 450"

subsection \<open>Library functions of the language\<close>

text \<open>
  \<open>Array.prototype.sort\<close> with a comparator: the sort is stable, and an element \<open>x\<close> stays in
  front of \<open>y\<close> unless the comparator puts it behind (\<open>cmp x y > 0\<close>). For a consistent
  comparator that fixes the result, which is the one of this insertion sort.
\<close>

fun insert_cmp :: "('a \<Rightarrow> 'a \<Rightarrow> int) \<Rightarrow> 'a \<Rightarrow> 'a list \<Rightarrow> 'a list" where
  "insert_cmp cmp x [] = [x]"
| "insert_cmp cmp x (y # ys) =
     (if cmp x y \<le> 0 then x # y # ys else y # insert_cmp cmp x ys)"

fun array_sort :: "('a \<Rightarrow> 'a \<Rightarrow> int) \<Rightarrow> 'a list \<Rightarrow> 'a list" where
  "array_sort cmp [] = []"
| "array_sort cmp (x # xs) = insert_cmp cmp x (array_sort cmp xs)"

text \<open>\<open>xs.slice(0, n)\<close> and \<open>xs.some(p)\<close>.\<close>

definition slice0 :: "nat \<Rightarrow> 'a list \<Rightarrow> 'a list" where
  "slice0 n xs = take n xs"

definition some :: "('a \<Rightarrow> bool) \<Rightarrow> 'a list \<Rightarrow> bool" where
  "some p xs = list_ex p xs"

text \<open>
  \<open>String.prototype.toLowerCase\<close> on the characters an address is written with: the letters
  \<open>A\<close> to \<open>Z\<close> move to \<open>a\<close> to \<open>z\<close>, every other character stays.
\<close>

definition lowerChar :: "char \<Rightarrow> char" where
  "lowerChar c =
     (let n = (of_char c :: nat) in if 65 \<le> n \<and> n \<le> 90 then char_of (n + 32) else c)"

definition toLowerCase :: "string \<Rightarrow> string" where
  "toLowerCase s = map lowerChar s"

text \<open>\<open>Math.ceil(a / b)\<close> on integers held in numbers.\<close>

definition ceilDiv :: "int \<Rightarrow> int \<Rightarrow> int" where
  "ceilDiv a b = \<lceil>real_of_int a / real_of_int b\<rceil>"

text \<open>
  \<open>Number(x)\<close> for a bigint \<open>x\<close>: the nearest double, ties to the even mantissa. A double
  holds 53 significant bits, so an integer of more bits loses its low ones. (Every
  \<open>uint256\<close> is below the largest double; no value here becomes \<open>Infinity\<close>.)
\<close>

function bitLength :: "int \<Rightarrow> nat" where
  "bitLength n = (if n \<le> 0 then 0 else Suc (bitLength (n div 2)))"
  by pat_completeness auto
termination
  by (relation "measure nat") auto

declare bitLength.simps [simp del]

definition Number :: "int \<Rightarrow> int" where
  "Number x =
     (let m = \<bar>x\<bar>; bits = bitLength m
      in if bits \<le> 53 then x
         else (let dropped = bits - 53;
                   q = m div 2 ^ dropped;
                   r = m mod 2 ^ dropped;
                   half = 2 ^ (dropped - 1);
                   roundUp = (half < r \<or> (r = half \<and> odd q))
               in sgn x * ((if roundUp then q + 1 else q) * 2 ^ dropped)))"

text \<open>\<open>h || "unknown"\<close>: the empty string is the falsy one.\<close>

definition orUnknown :: "string \<Rightarrow> string" where
  "orUnknown h = (if h = [] then ''unknown'' else h)"

subsection \<open>The comparator and the capped merge\<close>

text \<open>\<open>(a, b) => b.blockNumber - a.blockNumber\<close>\<close>

definition byBlockDesc :: "GameEvent \<Rightarrow> GameEvent \<Rightarrow> int" where
  "byBlockDesc a b = blockNumber b - blockNumber a"

text \<open>\<open>xs.sort((a, b) => b.blockNumber - a.blockNumber).slice(0, MAX_RESULTS)\<close>\<close>

definition sortAndCap :: "GameEvent list \<Rightarrow> GameEvent list" where
  "sortAndCap xs = slice0 MAX_RESULTS (array_sort byBlockDesc xs)"

subsection \<open>The historical scan: \<open>fetchEventsForContract\<close>\<close>

text \<open>
  One \<open>getLogs\<close> request: address, \<open>fromBlock\<close>, \<open>toBlock\<close>. The scan returns the requests it
  sent, in order, beside the logs it collected.
\<close>

type_synonym query = "string \<times> int \<times> int"

text \<open>
  The \<open>for\<close> loop over the chunks. \<open>isMounted i\<close> is the value of the liveness flag when
  the loop condition is evaluated for index \<open>i\<close>. A rejected \<open>getLogs\<close> leaves \<open>allLogs\<close> as
  it is (the empty \<open>catch\<close>).
\<close>

function scanLoop ::
  "provider \<Rightarrow> (int \<Rightarrow> bool) \<Rightarrow> string \<Rightarrow> int \<Rightarrow> int \<Rightarrow> int \<Rightarrow> int \<Rightarrow>
   query list \<times> Log list \<Rightarrow> query list \<times> Log list" where
  "scanLoop p isMounted contractAddress latestBlock startBlock chunksNeeded i (queries, allLogs) =
     (if i < chunksNeeded \<and> isMounted i then
        let chunkStart = latestBlock - (i * MAX_CHUNK_SIZE) - MAX_CHUNK_SIZE;
            chunkEnd = latestBlock - (i * MAX_CHUNK_SIZE);
            fromBlock = max chunkStart startBlock;
            toBlock = chunkEnd
        in scanLoop p isMounted contractAddress latestBlock startBlock chunksNeeded (i + 1)
             (queries @ [(contractAddress, fromBlock, toBlock)],
              (case getLogs p contractAddress fromBlock toBlock of
                 Some logs \<Rightarrow> allLogs @ logs
               | None \<Rightarrow> allLogs))
      else (queries, allLogs))"
  by pat_completeness auto
termination
  by (relation "measure (\<lambda>(p, m, a, l, s, c, i, acc). nat (c - i))") auto

text \<open>Lines 61 to 83: the window, the number of chunks and the loop.\<close>

definition scanChunks ::
  "provider \<Rightarrow> (int \<Rightarrow> bool) \<Rightarrow> string \<Rightarrow> int \<Rightarrow> query list \<times> Log list" where
  "scanChunks p isMounted contractAddress latestBlock =
     (let startBlock = max (latestBlock - TOTAL_BLOCKS_TO_CHECK) 0;
          totalBlocksToScan = latestBlock - startBlock;
          chunksNeeded = ceilDiv totalBlocksToScan MAX_CHUNK_SIZE
      in scanLoop p isMounted contractAddress latestBlock startBlock chunksNeeded 0 ([], []))"

text \<open>
  The record built from a log, its decoding and its block (lines 92 to 102). The block's
  timestamp is a number already, which \<open>Number\<close> returns as it is.
\<close>

definition makeEvent :: "Log \<Rightarrow> RollArgs option \<Rightarrow> Block \<Rightarrow> gameType \<Rightarrow> GameEvent" where
  "makeEvent lg parsedLog block gt =
     \<lparr>blockNumber = log_blockNumber lg,
      transactionHash = orUnknown (log_transactionHash lg),
      player = map_option (\<lambda>a. toLowerCase (args_player a)) parsedLog,
      amount = map_option args_amount parsedLog,
      choice = map_option (\<lambda>a. Number (args_choice a)) parsedLog,
      outcome = map_option (\<lambda>a. Number (args_outcome a)) parsedLog,
      won = map_option args_won parsedLog,
      gameType = gt,
      timestamp = block_timestamp block\<rparr>"

text \<open>
  The loop over \<open>allLogs\<close>: a throwing decoder or block lookup is caught by the empty
  \<open>catch\<close>, a \<open>null\<close> block is skipped by \<open>continue\<close>; in each case the loop goes on
  with the next log.
\<close>

fun parseLoop ::
  "provider \<Rightarrow> (Log \<Rightarrow> parseResult) \<Rightarrow> gameType \<Rightarrow> Log list \<Rightarrow> GameEvent list \<Rightarrow>
   GameEvent list" where
  "parseLoop p parseLog gt [] parsedEvents = parsedEvents"
| "parseLoop p parseLog gt (lg # rest) parsedEvents =
     (case parseLog lg of
        ParseThrows \<Rightarrow> parseLoop p parseLog gt rest parsedEvents
      | ParseReturns parsedLog \<Rightarrow>
          (case getBlock p (log_blockNumber lg) of
             BlockThrows \<Rightarrow> parseLoop p parseLog gt rest parsedEvents
           | BlockNull \<Rightarrow> parseLoop p parseLog gt rest parsedEvents
           | BlockFound block \<Rightarrow>
               parseLoop p parseLog gt rest (parsedEvents @ [makeEvent lg parsedLog block gt])))"

text \<open>
  \<open>fetchEventsForContract\<close>: \<open>None\<close> when the promise rejects, which only the first
  \<open>await\<close>, of \<open>getBlockNumber\<close>, can cause.
\<close>

definition fetchEventsForContract ::
  "provider \<Rightarrow> (Log \<Rightarrow> parseResult) \<Rightarrow> (int \<Rightarrow> bool) \<Rightarrow> string \<Rightarrow> gameType \<Rightarrow>
   GameEvent list option" where
  "fetchEventsForContract p parseLog isMounted contractAddress gt =
     (case getBlockNumber p of
        None \<Rightarrow> None
      | Some latestBlock \<Rightarrow>
          Some (parseLoop p parseLog gt
                  (snd (scanChunks p isMounted contractAddress latestBlock)) []))"

subsection \<open>The first effect: the historical fetch\<close>

text \<open>
  What \<open>Promise.all\<close> of the two fetches settles to: it rejects as soon as one of them
  rejects, whatever the other one did. The two fetches run side by side on the one provider
  object and each sends its own requests, so each has its own answers: \<open>pDice\<close> holds the
  provider's answers to the dice fetch, \<open>pCoinflip\<close> those to the coinflip fetch.
\<close>

datatype outcome = Rejected | Resolved "GameEvent list" "GameEvent list"

definition fetchBoth ::
  "provider \<Rightarrow> provider \<Rightarrow> (Log \<Rightarrow> parseResult) \<Rightarrow> (int \<Rightarrow> bool) \<Rightarrow> (int \<Rightarrow> bool) \<Rightarrow>
   outcome" where
  "fetchBoth pDice pCoinflip parseLog mountedDice mountedCoinflip =
     (case fetchEventsForContract pDice parseLog mountedDice DICE_CONTRACT_ADDRESS dice of
        None \<Rightarrow> Rejected
      | Some diceEvents \<Rightarrow>
          (case fetchEventsForContract pCoinflip parseLog mountedCoinflip
                  COINFLIP_CONTRACT_ADDRESS coinflip of
             None \<Rightarrow> Rejected
           | Some coinflipEvents \<Rightarrow> Resolved diceEvents coinflipEvents))"

text \<open>
  \<open>!isConnected || !currentAccount\<close>: the account is \<open>undefined\<close> (\<open>None\<close>) or a string, and
  the empty string is falsy too.
\<close>

definition notReady :: "bool \<Rightarrow> string option \<Rightarrow> bool" where
  "notReady isConnected currentAccount =
     (\<not> isConnected \<or> currentAccount = None \<or> currentAccount = Some [])"

text \<open>
  The body of the first effect up to the first \<open>await\<close>: the new state and the fetches it
  launched, each a contract address with its game type.
\<close>

definition historyEffect ::
  "bool \<Rightarrow> string option \<Rightarrow> state \<Rightarrow> state \<times> (string \<times> gameType) list" where
  "historyEffect isConnected currentAccount st =
     (if notReady isConnected currentAccount then (st\<lparr>events := [], loading := False\<rparr>, [])
      else (st\<lparr>loading := True, error := None\<rparr>,
            [(DICE_CONTRACT_ADDRESS, dice), (COINFLIP_CONTRACT_ADDRESS, coinflip)]))"

text \<open>
  The rest of the async function, run when \<open>Promise.all\<close> settles; \<open>isMounted\<close> is the flag
  at that moment. The \<open>return\<close> of the unmounted case is inside the \<open>try\<close>, so the
  \<open>finally\<close> block runs after it as after the other two exits.
\<close>

definition historySettle :: "bool \<Rightarrow> outcome \<Rightarrow> state \<Rightarrow> state" where
  "historySettle isMounted r st =
     (case r of
        Resolved diceEvents coinflipEvents \<Rightarrow>
          (if \<not> isMounted then st\<lparr>loading := False\<rparr>
           else (let allEvents = sortAndCap (diceEvents @ coinflipEvents)
                 in st\<lparr>events := allEvents, loading := False\<rparr>))
      | Rejected \<Rightarrow> st\<lparr>error := Some ''Failed to fetch events'', loading := False\<rparr>)"

subsection \<open>The second effect: the live subscription\<close>

text \<open>The listeners registered with \<open>provider.on\<close>: none when the wallet is not ready.\<close>

definition subscribeEffect :: "bool \<Rightarrow> string option \<Rightarrow> (string \<times> gameType) list" where
  "subscribeEffect isConnected currentAccount =
     (if notReady isConnected currentAccount then []
      else [(DICE_CONTRACT_ADDRESS, dice), (COINFLIP_CONTRACT_ADDRESS, coinflip)])"

text \<open>The function passed to \<open>setEvents\<close> (lines 157 to 160).\<close>

definition eventsUpdater :: "GameEvent \<Rightarrow> GameEvent list \<Rightarrow> GameEvent list" where
  "eventsUpdater newEvent prev =
     (if some (\<lambda>e. transactionHash e = transactionHash newEvent) prev then prev
      else sortAndCap (newEvent # prev))"

text \<open>
  \<open>handleLog\<close>: every exception is swallowed by the empty \<open>catch\<close>. With a \<open>null\<close>
  decoding, \<open>player\<close> is \<open>undefined\<close> and differs from every string.
\<close>

definition handleLog ::
  "provider \<Rightarrow> (Log \<Rightarrow> parseResult) \<Rightarrow> string \<Rightarrow> bool \<Rightarrow> Log \<Rightarrow> gameType \<Rightarrow> state \<Rightarrow> state" where
  "handleLog p parseLog currentAccount isMounted lg gt st =
     (case parseLog lg of
        ParseThrows \<Rightarrow> st
      | ParseReturns parsedLog \<Rightarrow>
          (let player = map_option (\<lambda>a. toLowerCase (args_player a)) parsedLog
           in if player \<noteq> Some (toLowerCase currentAccount) then st
              else (case getBlock p (log_blockNumber lg) of
                      BlockThrows \<Rightarrow> st
                    | BlockNull \<Rightarrow> st
                    | BlockFound block \<Rightarrow>
                        (let newEvent = makeEvent lg parsedLog block gt
                         in if isMounted then st\<lparr>events := eventsUpdater newEvent (events st)\<rparr>
                            else st))))"

subsection \<open>What is rendered\<close>

text \<open>
  The four returns of the component: the loading line, the error banner (its text is the
  fixed word \<open>Error\<close>; \<open>if (error)\<close> holds for a non-empty message), nothing, or the table.
\<close>

datatype view = LoadingView | ErrorView | NothingView | TableView "GameEvent list"

text \<open>The text of the single line a view consists of, when it is the loading or the error view.\<close>

definition bannerText :: "view \<Rightarrow> string option" where
  "bannerText v =
     (case v of
        LoadingView \<Rightarrow> Some ''Loading events...''
      | ErrorView \<Rightarrow> Some ''Error''
      | _ \<Rightarrow> None)"

definition render :: "state \<Rightarrow> view" where
  "render st =
     (if loading st \<and> length (events st) = 0 then LoadingView
      else if (case error st of None \<Rightarrow> False | Some msg \<Rightarrow> msg \<noteq> []) then ErrorView
      else if length (events st) = 0 then NothingView
      else TableView (events st))"

subsection \<open>Reachable states\<close>

text \<open>
  The states the component can be in: the initial one, and whatever a run of the first
  effect, the settling of a historical fetch or a delivered log makes of a reachable state,
  for every answer of the provider and the decoder.
\<close>

inductive reachable :: "state \<Rightarrow> bool" where
  reach_init: "reachable initialState"
| reach_effect: "reachable st \<Longrightarrow> reachable (fst (historyEffect isConnected currentAccount st))"
| reach_settle: "reachable st \<Longrightarrow> reachable (historySettle isMounted r st)"
| reach_log: "reachable st \<Longrightarrow> reachable (handleLog p parseLog currentAccount isMounted lg gt st)"

text \<open>
  The node behind the provider, for concrete runs: \<open>eth_getLogs\<close> returns the logs of the
  contract whose block lies between \<open>fromBlock\<close> and \<open>toBlock\<close>, both bounds included.
\<close>

definition nodeGetLogs :: "(string \<Rightarrow> Log list) \<Rightarrow> string \<Rightarrow> int \<Rightarrow> int \<Rightarrow> Log list option" where
  "nodeGetLogs chain contractAddress fromBlock toBlock =
     Some (filter (\<lambda>l. fromBlock \<le> log_blockNumber l \<and> log_blockNumber l \<le> toBlock)
             (chain contractAddress))"

subsection \<open>Notions the properties are stated with\<close>

text \<open>
  The range the loop computes for index \<open>i\<close> (\<open>fromBlock\<close>, \<open>toBlock\<close>), and what the request
  for it adds to \<open>allLogs\<close>.
\<close>

definition chunkRange :: "int \<Rightarrow> int \<Rightarrow> int \<Rightarrow> int \<times> int" where
  "chunkRange latestBlock startBlock i =
     (max (latestBlock - (i * MAX_CHUNK_SIZE) - MAX_CHUNK_SIZE) startBlock,
      latestBlock - (i * MAX_CHUNK_SIZE))"

definition chunkLogs :: "provider \<Rightarrow> string \<Rightarrow> int \<Rightarrow> int \<Rightarrow> int \<Rightarrow> Log list" where
  "chunkLogs p contractAddress latestBlock startBlock i =
     (case getLogs p contractAddress (fst (chunkRange latestBlock startBlock i))
             (snd (chunkRange latestBlock startBlock i)) of
        Some logs \<Rightarrow> logs
      | None \<Rightarrow> [])"

text \<open>Most recent first: every record's block number is at least that of each later one.\<close>

definition descending :: "GameEvent list \<Rightarrow> bool" where
  "descending xs = sorted_wrt (\<lambda>a b. blockNumber b \<le> blockNumber a) xs"

text \<open>
  Of every pair of adjacent records, the earlier one's block number is greater than or
  equal to the later one's.
\<close>

fun adjacentDescending :: "GameEvent list \<Rightarrow> bool" where
  "adjacentDescending (x # y # rest) =
     (blockNumber y \<le> blockNumber x \<and> adjacentDescending (y # rest))"
| "adjacentDescending xs = True"

text \<open>At most 12 records, each adjacent pair in descending order of block number.\<close>

definition cappedDescending :: "GameEvent list \<Rightarrow> bool" where
  "cappedDescending xs = (length xs \<le> 12 \<and> adjacentDescending xs)"

text \<open>
  The specification's wording of the merge: sorted in descending order of block number (the
  library's stable sort on the negated key) and truncated to the first 12 records.
\<close>

definition spec_sortedTruncated :: "GameEvent list \<Rightarrow> GameEvent list" where
  "spec_sortedTruncated xs = take 12 (sort_key (\<lambda>e. - blockNumber e) xs)"

text \<open>A record for concrete runs, with the given block number and transaction hash.\<close>

definition exampleEvent :: "int \<Rightarrow> string \<Rightarrow> GameEvent" where
  "exampleEvent b h =
     \<lparr>blockNumber = b, transactionHash = h, player = Some ''0xabc'', amount = Some 1,
      choice = Some 0, outcome = Some 1, won = Some False, gameType = dice, timestamp = 0\<rparr>"

text \<open>The record one log of \<open>allLogs\<close> yields in the second loop, if it yields one.\<close>

definition decodeOne ::
  "provider \<Rightarrow> (Log \<Rightarrow> parseResult) \<Rightarrow> gameType \<Rightarrow> Log \<Rightarrow> GameEvent option" where
  "decodeOne p parseLog gt lg =
     (case parseLog lg of
        ParseThrows \<Rightarrow> None
      | ParseReturns parsedLog \<Rightarrow>
          (case getBlock p (log_blockNumber lg) of
             BlockFound block \<Rightarrow> Some (makeEvent lg parsedLog block gt)
           | _ \<Rightarrow> None))"

text \<open>The number of chunks \<open>fetchEventsForContract\<close> computes for a latest block.\<close>

definition chunksFor :: "int \<Rightarrow> int" where
  "chunksFor latestBlock =
     ceilDiv (latestBlock - max (latestBlock - TOTAL_BLOCKS_TO_CHECK) 0) MAX_CHUNK_SIZE"

text \<open>No two records with the same transaction hash.\<close>

definition uniqueHashes :: "GameEvent list \<Rightarrow> bool" where
  "uniqueHashes xs = distinct (map transactionHash xs)"

text \<open>
  Concrete surroundings for runs of the component: a log, a decoder that decodes every log
  to a roll of the given player, and a provider in front of a node with the given latest
  block and logs, where every block is found.
\<close>

definition exampleLog :: "int \<Rightarrow> string \<Rightarrow> Log" where
  "exampleLog b h = \<lparr>log_blockNumber = b, log_transactionHash = h, topics = [], data = []\<rparr>"

definition exampleArgs :: "string \<Rightarrow> RollArgs" where
  "exampleArgs who =
     \<lparr>args_player = who, args_amount = 1, args_choice = 0, args_outcome = 1, args_won = False\<rparr>"

definition decodeAs :: "string \<Rightarrow> Log \<Rightarrow> parseResult" where
  "decodeAs who lg = ParseReturns (Some (exampleArgs who))"

definition nodeProvider :: "int \<Rightarrow> (string \<Rightarrow> Log list) \<Rightarrow> provider" where
  "nodeProvider latestBlock chain =
     \<lparr>getBlockNumber = Some latestBlock,
      getLogs = nodeGetLogs chain,
      getBlock = (\<lambda>b. BlockFound \<lparr>block_timestamp = b\<rparr>)\<rparr>"

text \<open>A chain with the given logs at the dice contract and none elsewhere.\<close>

definition diceChain :: "Log list \<Rightarrow> string \<Rightarrow> Log list" where
  "diceChain logs contractAddress = (if contractAddress = DICE_CONTRACT_ADDRESS then logs else [])"

text \<open>
  One whole run of the first effect: its synchronous part and, when that launched the
  fetches, the settling of \<open>Promise.all\<close> on their outcome; \<open>mountedAtSettle\<close> is the liveness
  flag at that moment.
\<close>

definition runHistory ::
  "provider \<Rightarrow> provider \<Rightarrow> (Log \<Rightarrow> parseResult) \<Rightarrow> (int \<Rightarrow> bool) \<Rightarrow> (int \<Rightarrow> bool) \<Rightarrow> bool \<Rightarrow>
   bool \<Rightarrow> string option \<Rightarrow> state \<Rightarrow> state" where
  "runHistory pDice pCoinflip parseLog mountedDice mountedCoinflip mountedAtSettle
     isConnected currentAccount st =
     (case historyEffect isConnected currentAccount st of
        (started, launched) \<Rightarrow>
          if launched = [] then started
          else historySettle mountedAtSettle
                 (fetchBoth pDice pCoinflip parseLog mountedDice mountedCoinflip) started)"

text \<open>
  A provider and a decoder that fail in places: the request for the chunk ending at block
  1550 is rejected, block 300 is not found, and the log of block 700 does not decode.
\<close>

definition flakyProvider :: provider where
  "flakyProvider =
     \<lparr>getBlockNumber = Some 2000,
      getLogs = (\<lambda>a fromBlock toBlock.
         if toBlock = 1550 then None
         else nodeGetLogs
                (diceChain [exampleLog 1990 ''0xa'', exampleLog 1200 ''0xb'',
                   exampleLog 700 ''0xc'', exampleLog 300 ''0xd'', exampleLog 100 ''0xe''])
                a fromBlock toBlock),
      getBlock = (\<lambda>b. if b = 300 then BlockNull else BlockFound \<lparr>block_timestamp = b\<rparr>)\<rparr>"

definition flakyDecoder :: "Log \<Rightarrow> parseResult" where
  "flakyDecoder lg = (if log_blockNumber lg = 700 then ParseThrows else decodeAs ''0xDEF'' lg)"

text \<open>The blocks a request asks for: \<open>eth_getLogs\<close> includes both bounds.\<close>

definition blocksOf :: "int \<times> int \<Rightarrow> int set" where
  "blocksOf r = {fst r..snd r}"

text \<open>Thirteen logs of distinct transactions in the thirteen latest blocks up to 2000.\<close>

definition thirteenLogs :: "Log list" where
  "thirteenLogs =
     [exampleLog 1988 ''0x01'', exampleLog 1989 ''0x02'', exampleLog 1990 ''0x03'',
      exampleLog 1991 ''0x04'', exampleLog 1992 ''0x05'', exampleLog 1993 ''0x06'',
      exampleLog 1994 ''0x07'', exampleLog 1995 ''0x08'', exampleLog 1996 ''0x09'',
      exampleLog 1997 ''0x0a'', exampleLog 1998 ''0x0b'', exampleLog 1999 ''0x0c'',
      exampleLog 2000 ''0x0d'']"


section \<open>Properties\<close>

subsection \<open>The conversion to a number\<close>

lemma bitLength_le: "bitLength n \<le> k \<longleftrightarrow> n < 2 ^ k"
proof (induction n arbitrary: k rule: bitLength.induct)
  case (1 n)
  show ?case
  proof (cases "n \<le> 0")
    case True
    have "(0::int) < 2 ^ k" by simp
    with True have "n < 2 ^ k" by linarith
    with True show ?thesis by (simp add: bitLength.simps)
  next
    case False
    show ?thesis
    proof (cases k)
      case 0
      with False show ?thesis by (simp add: bitLength.simps)
    next
      case (Suc k')
      have "bitLength (n div 2) \<le> k' \<longleftrightarrow> n div 2 < 2 ^ k'"
        using "1.IH" [OF False] .
      moreover have "n div 2 < 2 ^ k' \<longleftrightarrow> n < 2 ^ Suc k'" by auto
      ultimately show ?thesis
        using False Suc by (simp add: bitLength.simps [of n])
    qed
  qed
qed

lemma Number_exact: "\<bar>x\<bar> < 2 ^ 53 \<Longrightarrow> Number x = x"
  by (simp add: Number_def bitLength_le)

lemma Number_rounds: "Number (2 ^ 53 + 1) = 2 ^ 53 \<and> Number (2 ^ 53 + 3) = 2 ^ 53 + 4"
  by code_simp

subsection \<open>The sort and the cap\<close>

lemma insert_cmp_insort_key:
  "insert_cmp byBlockDesc x ys = insort_key (\<lambda>e. - blockNumber e) x ys"
  by (induction ys) (simp_all add: byBlockDesc_def)

lemma array_sort_sort_key:
  "array_sort byBlockDesc xs = sort_key (\<lambda>e. - blockNumber e) xs"
  by (induction xs) (simp_all add: insert_cmp_insort_key)

lemma sortAndCap_spec: "sortAndCap xs = spec_sortedTruncated xs"
  by (simp add: sortAndCap_def slice0_def MAX_RESULTS_def array_sort_sort_key
      spec_sortedTruncated_def)

lemma descending_sort_key: "descending (sort_key (\<lambda>e. - blockNumber e) xs)"
proof -
  have "sorted (map (\<lambda>e. - blockNumber e) (sort_key (\<lambda>e. - blockNumber e) xs))"
    by (rule sorted_sort_key)
  then show ?thesis
    by (simp add: descending_def sorted_map)
qed

lemma descending_sortAndCap: "descending (sortAndCap xs)"
  unfolding sortAndCap_spec spec_sortedTruncated_def descending_def
  using descending_sort_key [of xs] sorted_wrt_take descending_def by blast

lemma length_sortAndCap: "length (sortAndCap xs) \<le> 12"
  by (simp add: sortAndCap_def slice0_def MAX_RESULTS_def)

lemma descending_adjacent: "descending xs \<Longrightarrow> adjacentDescending xs"
  by (induction xs rule: adjacentDescending.induct) (simp_all add: descending_def)

lemma adjacentDescending_nth:
  "adjacentDescending xs \<Longrightarrow> Suc i < length xs \<Longrightarrow>
   blockNumber (xs ! Suc i) \<le> blockNumber (xs ! i)"
proof (induction xs arbitrary: i rule: adjacentDescending.induct)
  case (1 x y rest)
  then show ?case by (cases i) simp_all
qed simp_all

lemma cappedDescending_sortAndCap: "cappedDescending (sortAndCap xs)"
  unfolding cappedDescending_def
  using length_sortAndCap descending_adjacent [OF descending_sortAndCap] by blast

lemma cappedDescending_Nil: "cappedDescending []"
  by (simp add: cappedDescending_def)

lemma some_iff: "some P xs \<longleftrightarrow> (\<exists>x\<in>set xs. P x)"
  by (simp add: some_def list_ex_iff)

lemma cappedDescending_eventsUpdater:
  "cappedDescending prev \<Longrightarrow> cappedDescending (eventsUpdater e prev)"
  by (simp add: eventsUpdater_def cappedDescending_sortAndCap)

subsection \<open>What each transition does to the events list\<close>

lemma events_historyEffect:
  "events (fst (historyEffect c a st)) = events st \<or> events (fst (historyEffect c a st)) = []"
  by (simp add: historyEffect_def)

lemma events_historySettle:
  "events (historySettle m r st) = events st \<or>
   (\<exists>d c. events (historySettle m r st) = sortAndCap (d @ c))"
  by (cases r) (auto simp: historySettle_def Let_def)

lemma events_handleLog:
  "events (handleLog p parseLog acct m lg gt st) = events st \<or>
   (\<exists>e. events (handleLog p parseLog acct m lg gt st) = eventsUpdater e (events st))"
  by (auto simp: handleLog_def Let_def split: parseResult.splits blockResult.splits)

lemma reachable_cappedDescending: "reachable st \<Longrightarrow> cappedDescending (events st)"
proof (induction rule: reachable.induct)
  case reach_init
  show ?case by (simp add: initialState_def cappedDescending_Nil)
next
  case (reach_effect st isConnected currentAccount)
  then show ?case
    using events_historyEffect [of isConnected currentAccount st]
    by (auto simp: cappedDescending_Nil)
next
  case (reach_settle st isMounted r)
  then show ?case
    using events_historySettle [of isMounted r st]
    by (auto simp: cappedDescending_sortAndCap)
next
  case (reach_log st p parseLog currentAccount isMounted lg gt)
  then show ?case
    using events_handleLog [of p parseLog currentAccount isMounted lg gt st]
    by (auto simp: cappedDescending_eventsUpdater)
qed

subsection \<open>The bound and the order of the events list\<close>

text \<open>
  Claim C1. In every reachable state of the component the events list has at most 12
  records and each adjacent pair is in descending order of block number. The list stored by
  the historical merge has both properties, and the subscription's updater keeps them.
\<close>

theorem events_bounded_and_ordered:
  "(reachable st \<longrightarrow> cappedDescending (events st)) \<and>
   cappedDescending (events (historySettle True (Resolved diceEvents coinflipEvents) st0)) \<and>
   (cappedDescending prev \<longrightarrow> cappedDescending (eventsUpdater newEvent prev))"
  by (simp add: reachable_cappedDescending cappedDescending_eventsUpdater
      historySettle_def cappedDescending_sortAndCap)

theorem events_bounded_and_ordered_witness:
  "reachable (historySettle True (Resolved [exampleEvent 5 ''0xa''] [exampleEvent 7 ''0xb''])
      initialState) \<and>
   events (historySettle True (Resolved [exampleEvent 5 ''0xa''] [exampleEvent 7 ''0xb''])
      initialState)
     = [exampleEvent 7 ''0xb'', exampleEvent 5 ''0xa''] \<and>
   cappedDescending [exampleEvent 7 ''0xb'', exampleEvent 5 ''0xa''] \<and>
   cappedDescending
     (eventsUpdater (exampleEvent 6 ''0xc'') [exampleEvent 7 ''0xb'', exampleEvent 5 ''0xa''])"
proof -
  let ?s = "historySettle True (Resolved [exampleEvent 5 ''0xa''] [exampleEvent 7 ''0xb''])
    initialState"
  have r: "reachable ?s" by (rule reach_settle [OF reach_init])
  have e: "events ?s = [exampleEvent 7 ''0xb'', exampleEvent 5 ''0xa'']"
    by (simp add: historySettle_def sortAndCap_def slice0_def MAX_RESULTS_def byBlockDesc_def
        exampleEvent_def)
  show ?thesis
    using r e
      events_bounded_and_ordered [of ?s "[]" "[]" initialState
        "[exampleEvent 7 ''0xb'', exampleEvent 5 ''0xa'']" "exampleEvent 6 ''0xc''"]
    by simp
qed

subsection \<open>The historical merge\<close>

text \<open>
  Claim C3. For all lists of decoded dice and coinflip events, the list the historical
  fetch stores into the state is their concatenation, sorted in descending order of block
  number and truncated to the first 12 records. The sorted list is in descending order
  and a permutation of the concatenation.
\<close>

theorem historical_result_sorted_truncated:
  "events (historySettle True (Resolved diceEvents coinflipEvents) st)
     = spec_sortedTruncated (diceEvents @ coinflipEvents) \<and>
   descending (sort_key (\<lambda>e. - blockNumber e) (diceEvents @ coinflipEvents)) \<and>
   mset (sort_key (\<lambda>e. - blockNumber e) (diceEvents @ coinflipEvents))
     = mset diceEvents + mset coinflipEvents"
  by (simp add: historySettle_def sortAndCap_spec descending_sort_key)

subsection \<open>The subscription's updater\<close>

text \<open>
  Claim C4. For an incoming event and a current list \<open>prev\<close>: when a record of \<open>prev\<close> has
  the event's transaction hash the updater returns \<open>prev\<close> unchanged; otherwise it returns
  the event together with \<open>prev\<close>, sorted in descending order of block number and truncated
  to 12 records.
\<close>

theorem eventsUpdater_dedup_or_merge:
  "((\<exists>r\<in>set prev. transactionHash r = transactionHash newEvent) \<longrightarrow>
      eventsUpdater newEvent prev = prev) \<and>
   (\<not> (\<exists>r\<in>set prev. transactionHash r = transactionHash newEvent) \<longrightarrow>
      eventsUpdater newEvent prev = spec_sortedTruncated (newEvent # prev))"
  by (simp add: eventsUpdater_def some_iff sortAndCap_spec)

theorem eventsUpdater_dedup_or_merge_witness:
  "(\<exists>r\<in>set [exampleEvent 7 ''0xb''].
      transactionHash r = transactionHash (exampleEvent 7 ''0xb'')) \<and>
   eventsUpdater (exampleEvent 7 ''0xb'') [exampleEvent 7 ''0xb''] = [exampleEvent 7 ''0xb''] \<and>
   \<not> (\<exists>r\<in>set [exampleEvent 7 ''0xb''].
      transactionHash r = transactionHash (exampleEvent 9 ''0xc'')) \<and>
   eventsUpdater (exampleEvent 9 ''0xc'') [exampleEvent 7 ''0xb'']
     = [exampleEvent 9 ''0xc'', exampleEvent 7 ''0xb'']"
  using eventsUpdater_dedup_or_merge [of "[exampleEvent 7 ''0xb'']" "exampleEvent 7 ''0xb''"]
    eventsUpdater_dedup_or_merge [of "[exampleEvent 7 ''0xb'']" "exampleEvent 9 ''0xc''"]
  by (simp add: exampleEvent_def spec_sortedTruncated_def)

subsection \<open>The live handler\<close>

lemma handleLog_mismatch:
  "parseLog lg = ParseReturns parsedLog \<Longrightarrow>
   map_option (\<lambda>a. toLowerCase (args_player a)) parsedLog \<noteq> Some (toLowerCase currentAccount) \<Longrightarrow>
   handleLog p parseLog currentAccount isMounted lg gt st = st"
  by (simp add: handleLog_def)

lemma handleLog_changes_only_matching:
  "handleLog p parseLog currentAccount isMounted lg gt st \<noteq> st \<Longrightarrow>
   \<exists>args. parseLog lg = ParseReturns (Some args) \<and>
     toLowerCase (args_player args) = toLowerCase currentAccount"
  by (cases "parseLog lg")
     (auto simp: handleLog_def Let_def split: if_splits blockResult.splits)

lemma lower_DEF: "toLowerCase ''0xDEF'' = ''0xdef''" by code_simp
lemma lower_ABC: "toLowerCase ''0xABC'' = ''0xabc''" by code_simp
lemma lower_abc: "toLowerCase ''0xabc'' = ''0xabc''" by code_simp

text \<open>
  Claim C5. For a log delivered by the subscription: when the decoded player address,
  lowercased, differs from the lowercased address of the connected account, the handler
  leaves the state as it is; and whenever the handler changes the events list, the log was
  decoded and its player equals the connected account after lowercasing both.
\<close>

theorem handleLog_filters_by_account:
  "(parseLog lg = ParseReturns (Some args) \<and>
    toLowerCase (args_player args) \<noteq> toLowerCase currentAccount \<longrightarrow>
      handleLog p parseLog currentAccount isMounted lg gt st = st) \<and>
   (events (handleLog p parseLog currentAccount isMounted lg gt st) \<noteq> events st \<longrightarrow>
      (\<exists>args. parseLog lg = ParseReturns (Some args) \<and>
         toLowerCase (args_player args) = toLowerCase currentAccount))"
proof (intro conjI impI)
  assume "parseLog lg = ParseReturns (Some args) \<and>
    toLowerCase (args_player args) \<noteq> toLowerCase currentAccount"
  then show "handleLog p parseLog currentAccount isMounted lg gt st = st"
    using handleLog_mismatch [of parseLog lg "Some args" currentAccount] by simp
next
  assume "events (handleLog p parseLog currentAccount isMounted lg gt st) \<noteq> events st"
  then have "handleLog p parseLog currentAccount isMounted lg gt st \<noteq> st" by auto
  then show "\<exists>args. parseLog lg = ParseReturns (Some args) \<and>
         toLowerCase (args_player args) = toLowerCase currentAccount"
    by (rule handleLog_changes_only_matching)
qed

theorem handleLog_filters_by_account_witness:
  "decodeAs ''0xDEF'' (exampleLog 5 ''0xa'') = ParseReturns (Some (exampleArgs ''0xDEF'')) \<and>
   toLowerCase (args_player (exampleArgs ''0xDEF'')) \<noteq> toLowerCase ''0xabc'' \<and>
   handleLog (nodeProvider 9 (diceChain [])) (decodeAs ''0xDEF'') ''0xabc'' True
     (exampleLog 5 ''0xa'') dice initialState = initialState \<and>
   events (handleLog (nodeProvider 9 (diceChain [])) (decodeAs ''0xABC'') ''0xabc'' True
     (exampleLog 5 ''0xa'') dice initialState) \<noteq> events initialState \<and>
   toLowerCase (args_player (exampleArgs ''0xABC'')) = toLowerCase ''0xabc''"
proof -
  have ev: "events (handleLog (nodeProvider 9 (diceChain [])) (decodeAs ''0xABC'') ''0xabc'' True
     (exampleLog 5 ''0xa'') dice initialState) \<noteq> events initialState"
    by (simp add: handleLog_def decodeAs_def exampleArgs_def lower_ABC lower_abc nodeProvider_def
        exampleLog_def initialState_def eventsUpdater_def some_def sortAndCap_def slice0_def
        MAX_RESULTS_def)
  show ?thesis
    using ev
      handleLog_filters_by_account [of "decodeAs ''0xDEF''" "exampleLog 5 ''0xa''"
        "exampleArgs ''0xDEF''" "''0xabc''" "nodeProvider 9 (diceChain [])" True dice initialState]
      handleLog_filters_by_account [of "decodeAs ''0xABC''" "exampleLog 5 ''0xa''"
        "exampleArgs ''0xABC''" "''0xabc''" "nodeProvider 9 (diceChain [])" True dice initialState]
    by (simp add: decodeAs_def exampleArgs_def lower_DEF lower_ABC lower_abc)
qed

subsection \<open>A wallet that is not ready\<close>

text \<open>
  Claim C9. When the wallet is not connected or there is no active account (the account
  is undefined or empty), the first effect sets the events list to empty and loading to
  false and launches no fetch, and the second effect registers no listener.
\<close>

theorem not_ready_no_fetch_no_subscription:
  "\<not> isConnected \<or> currentAccount = None \<or> currentAccount = Some [] \<longrightarrow>
     historyEffect isConnected currentAccount st = (st\<lparr>events := [], loading := False\<rparr>, []) \<and>
     subscribeEffect isConnected currentAccount = []"
  by (auto simp: historyEffect_def subscribeEffect_def notReady_def)

theorem not_ready_no_fetch_no_subscription_witness:
  "historyEffect False (Some ''0xabc'') \<lparr>events = [exampleEvent 5 ''0xa''], loading = True, error = None\<rparr>
     = (\<lparr>events = [], loading = False, error = None\<rparr>, []) \<and>
   subscribeEffect False (Some ''0xabc'') = [] \<and>
   historyEffect True None \<lparr>events = [exampleEvent 5 ''0xa''], loading = True, error = None\<rparr>
     = (\<lparr>events = [], loading = False, error = None\<rparr>, []) \<and>
   subscribeEffect True None = []"
  using not_ready_no_fetch_no_subscription [of False "Some ''0xabc''"
      "\<lparr>events = [exampleEvent 5 ''0xa''], loading = True, error = None\<rparr>"]
    not_ready_no_fetch_no_subscription [of True None
      "\<lparr>events = [exampleEvent 5 ''0xa''], loading = True, error = None\<rparr>"]
  by simp

subsection \<open>Closed forms of the two loops\<close>

lemma ceilDiv_eq: "ceilDiv a b = - (- a div b)"
  unfolding ceilDiv_def by (rule ceiling_divide_eq_div)

lemma scanLoop_closed:
  "(\<forall>j. i \<le> j \<and> j < n \<longrightarrow> m j) \<Longrightarrow>
   scanLoop p m a L s n i (qs, ls) =
     (qs @ map (\<lambda>j. (a, chunkRange L s j)) [i..n - 1],
      ls @ concat (map (chunkLogs p a L s) [i..n - 1]))"
proof (induction "nat (n - i)" arbitrary: i qs ls)
  case 0
  then have "\<not> i < n" by simp
  then show ?case by simp
next
  case (Suc k)
  then have lt: "i < n" and mi: "m i" by simp_all
  have up: "[i..n - 1] = i # [i + 1..n - 1]"
    using lt by (simp add: upto_rec1)
  have k: "k = nat (n - (i + 1))" using Suc.hyps(2) by simp
  have later: "\<forall>j. i + 1 \<le> j \<and> j < n \<longrightarrow> m j"
    using Suc.prems by simp
  show ?case
    using lt mi Suc.hyps(1) [OF k later] up
    by (simp add: chunkRange_def chunkLogs_def Let_def split: option.splits)
qed

lemma scanChunks_closed:
  "\<forall>j. isMounted j \<Longrightarrow>
   scanChunks p isMounted a L =
     (map (\<lambda>j. (a, chunkRange L (max (L - TOTAL_BLOCKS_TO_CHECK) 0) j)) [0..chunksFor L - 1],
      concat (map (chunkLogs p a L (max (L - TOTAL_BLOCKS_TO_CHECK) 0)) [0..chunksFor L - 1]))"
  unfolding scanChunks_def chunksFor_def Let_def
  by (subst scanLoop_closed) simp_all

lemma parseLoop_closed:
  "parseLoop p parseLog gt logs acc = acc @ List.map_filter (decodeOne p parseLog gt) logs"
  by (induction logs arbitrary: acc)
     (simp_all add: decodeOne_def split: parseResult.splits blockResult.splits)

lemma map_filter_append:
  "List.map_filter f (xs @ ys) = List.map_filter f xs @ List.map_filter f ys"
  by (simp add: List.map_filter_def)

lemma parseLoop_drops_one:
  "decodeOne p parseLog gt lg = None \<Longrightarrow>
   parseLoop p parseLog gt (before @ lg # after) [] = parseLoop p parseLog gt (before @ after) []"
  by (simp add: parseLoop_closed map_filter_append)

lemma decodeOne_None:
  "parseLog lg = ParseThrows \<or> getBlock p (log_blockNumber lg) = BlockNull \<or>
   getBlock p (log_blockNumber lg) = BlockThrows \<Longrightarrow> decodeOne p parseLog gt lg = None"
  by (auto simp: decodeOne_def split: parseResult.splits)

lemma decodeOne_Some:
  "parseLog lg = ParseReturns parsedLog \<Longrightarrow> getBlock p (log_blockNumber lg) = BlockFound block \<Longrightarrow>
   decodeOne p parseLog gt lg = Some (makeEvent lg parsedLog block gt)"
  by (simp add: decodeOne_def)

lemma fetch_resolves:
  "getBlockNumber p = Some L \<Longrightarrow>
   fetchEventsForContract p parseLog isMounted a gt =
     Some (List.map_filter (decodeOne p parseLog gt) (snd (scanChunks p isMounted a L)))"
  by (simp add: fetchEventsForContract_def parseLoop_closed)

lemma fetch_rejects_iff:
  "fetchEventsForContract p parseLog isMounted a gt = None \<longleftrightarrow> getBlockNumber p = None"
  by (simp add: fetchEventsForContract_def split: option.splits)

lemma fetchBoth_Rejected_iff:
  "fetchBoth pDice pCoinflip parseLog mD mC = Rejected \<longleftrightarrow>
   getBlockNumber pDice = None \<or> getBlockNumber pCoinflip = None"
  by (auto simp: fetchBoth_def fetchEventsForContract_def split: option.splits)

lemma fetchBoth_Resolved:
  "getBlockNumber pDice = Some LD \<Longrightarrow> getBlockNumber pCoinflip = Some LC \<Longrightarrow>
   fetchBoth pDice pCoinflip parseLog mD mC =
     Resolved
       (List.map_filter (decodeOne pDice parseLog dice)
          (snd (scanChunks pDice mD DICE_CONTRACT_ADDRESS LD)))
       (List.map_filter (decodeOne pCoinflip parseLog coinflip)
          (snd (scanChunks pCoinflip mC COINFLIP_CONTRACT_ADDRESS LC)))"
  by (simp add: fetchBoth_def fetch_resolves)

lemma chunksFor_2000: "chunksFor 2000 = 5"
  by (simp add: chunksFor_def ceilDiv_eq TOTAL_BLOCKS_TO_CHECK_def MAX_CHUNK_SIZE_def)

lemma upto_0_4: "[0..4::int] = [0, 1, 2, 3, 4]"
  by code_simp

subsection \<open>Failures of the provider and the decoder\<close>

text \<open>
  Claim C7, as stated, fails in its last part: when the overall fetch rejects, the message
  \<open>Failed to fetch events\<close> is stored in the error state, but what the component shows is the
  banner with the fixed text \<open>Error\<close>.
\<close>

theorem failed_fetch_banner_counterexample:
  "fetchBoth (flakyProvider\<lparr>getBlockNumber := None\<rparr>) flakyProvider flakyDecoder
     (\<lambda>i. True) (\<lambda>i. True) = Rejected \<and>
   error (runHistory (flakyProvider\<lparr>getBlockNumber := None\<rparr>) flakyProvider flakyDecoder
     (\<lambda>i. True) (\<lambda>i. True) True True (Some ''0xabc'') initialState)
     = Some ''Failed to fetch events'' \<and>
   bannerText (render (runHistory (flakyProvider\<lparr>getBlockNumber := None\<rparr>) flakyProvider
     flakyDecoder (\<lambda>i. True) (\<lambda>i. True) True True (Some ''0xabc'') initialState))
     = Some ''Error'' \<and>
   bannerText (render (runHistory (flakyProvider\<lparr>getBlockNumber := None\<rparr>) flakyProvider
     flakyDecoder (\<lambda>i. True) (\<lambda>i. True) True True (Some ''0xabc'') initialState))
     \<noteq> Some ''Failed to fetch events''"
  by code_simp

text \<open>
  Claim C7, amended. While the scan is not torn down it sends one request per chunk index,
  none twice, and collects the logs of every chunk whose request succeeds: a rejected
  request contributes nothing and the later chunks are still requested. The second loop
  returns, in order, the record of every collected log that decodes and whose block is
  found; a log whose decoding throws, or whose block lookup returns null or throws, yields
  no record, and the logs around it are processed as without it. A fetch resolves to that
  list whatever the chunk requests and the logs did; it rejects exactly when the latest
  block number cannot be read, and \<open>Promise.all\<close> rejects exactly when one of the two
  fetches does. Then the error state becomes the one message \<open>Failed to fetch events\<close>,
  loading becomes false, and the component renders its error banner, which reads \<open>Error\<close>.
\<close>

theorem best_effort_error_handling:
  "((\<forall>j. isMounted j) \<longrightarrow>
      scanChunks p isMounted a L =
        (map (\<lambda>j. (a, chunkRange L (max (L - TOTAL_BLOCKS_TO_CHECK) 0) j)) [0..chunksFor L - 1],
         concat (map (chunkLogs p a L (max (L - TOTAL_BLOCKS_TO_CHECK) 0)) [0..chunksFor L - 1]))) \<and>
   (getLogs p a (fst (chunkRange L s j)) (snd (chunkRange L s j)) = None \<longrightarrow>
      chunkLogs p a L s j = []) \<and>
   (getLogs p a (fst (chunkRange L s j)) (snd (chunkRange L s j)) = Some logs \<longrightarrow>
      chunkLogs p a L s j = logs) \<and>
   parseLoop p parseLog gt allLogs parsedEvents
     = parsedEvents @ List.map_filter (decodeOne p parseLog gt) allLogs \<and>
   (parseLog lg = ParseThrows \<or> getBlock p (log_blockNumber lg) = BlockNull \<or>
    getBlock p (log_blockNumber lg) = BlockThrows \<longrightarrow> decodeOne p parseLog gt lg = None) \<and>
   (parseLog lg = ParseReturns parsedLog \<and> getBlock p (log_blockNumber lg) = BlockFound block \<longrightarrow>
      decodeOne p parseLog gt lg = Some (makeEvent lg parsedLog block gt)) \<and>
   (parseLog lg = ParseThrows \<or> getBlock p (log_blockNumber lg) = BlockNull \<longrightarrow>
      parseLoop p parseLog gt (before @ lg # after) []
        = parseLoop p parseLog gt (before @ after) []) \<and>
   (getBlockNumber p = Some L \<longrightarrow>
      fetchEventsForContract p parseLog isMounted a gt =
        Some (List.map_filter (decodeOne p parseLog gt) (snd (scanChunks p isMounted a L)))) \<and>
   (fetchEventsForContract p parseLog isMounted a gt = None \<longleftrightarrow> getBlockNumber p = None) \<and>
   (fetchBoth pDice pCoinflip parseLog mountedDice mountedCoinflip = Rejected \<longleftrightarrow>
      getBlockNumber pDice = None \<or> getBlockNumber pCoinflip = None) \<and>
   (getBlockNumber pDice = Some LD \<and> getBlockNumber pCoinflip = Some LC \<longrightarrow>
      fetchBoth pDice pCoinflip parseLog mountedDice mountedCoinflip =
        Resolved
          (List.map_filter (decodeOne pDice parseLog dice)
             (snd (scanChunks pDice mountedDice DICE_CONTRACT_ADDRESS LD)))
          (List.map_filter (decodeOne pCoinflip parseLog coinflip)
             (snd (scanChunks pCoinflip mountedCoinflip COINFLIP_CONTRACT_ADDRESS LC)))) \<and>
   historySettle m Rejected st = st\<lparr>error := Some ''Failed to fetch events'', loading := False\<rparr> \<and>
   render (historySettle m Rejected st) = ErrorView \<and>
   bannerText (render (historySettle m Rejected st)) = Some ''Error''"
proof -
  have scan: "(\<forall>j. isMounted j) \<longrightarrow>
      scanChunks p isMounted a L =
        (map (\<lambda>j. (a, chunkRange L (max (L - TOTAL_BLOCKS_TO_CHECK) 0) j)) [0..chunksFor L - 1],
         concat (map (chunkLogs p a L (max (L - TOTAL_BLOCKS_TO_CHECK) 0)) [0..chunksFor L - 1]))"
    using scanChunks_closed [of isMounted p a L] by blast
  have thrown: "getLogs p a (fst (chunkRange L s j)) (snd (chunkRange L s j)) = None \<longrightarrow>
      chunkLogs p a L s j = []"
    by (simp add: chunkLogs_def)
  have answered: "getLogs p a (fst (chunkRange L s j)) (snd (chunkRange L s j)) = Some logs \<longrightarrow>
      chunkLogs p a L s j = logs"
    by (simp add: chunkLogs_def)
  have loop: "parseLoop p parseLog gt allLogs parsedEvents
     = parsedEvents @ List.map_filter (decodeOne p parseLog gt) allLogs"
    by (rule parseLoop_closed)
  have none: "parseLog lg = ParseThrows \<or> getBlock p (log_blockNumber lg) = BlockNull \<or>
    getBlock p (log_blockNumber lg) = BlockThrows \<longrightarrow> decodeOne p parseLog gt lg = None"
    using decodeOne_None [of parseLog lg p gt] by blast
  have some: "parseLog lg = ParseReturns parsedLog \<and>
      getBlock p (log_blockNumber lg) = BlockFound block \<longrightarrow>
      decodeOne p parseLog gt lg = Some (makeEvent lg parsedLog block gt)"
    using decodeOne_Some [of parseLog lg parsedLog p block gt] by blast
  have dropped: "parseLog lg = ParseThrows \<or> getBlock p (log_blockNumber lg) = BlockNull \<longrightarrow>
      parseLoop p parseLog gt (before @ lg # after) []
        = parseLoop p parseLog gt (before @ after) []"
    using decodeOne_None [of parseLog lg p gt] parseLoop_drops_one [of p parseLog gt lg before after]
    by blast
  have resolves: "getBlockNumber p = Some L \<longrightarrow>
      fetchEventsForContract p parseLog isMounted a gt =
        Some (List.map_filter (decodeOne p parseLog gt) (snd (scanChunks p isMounted a L)))"
    using fetch_resolves [of p L parseLog isMounted a gt] by blast
  have rejects: "fetchEventsForContract p parseLog isMounted a gt = None \<longleftrightarrow>
      getBlockNumber p = None"
    by (rule fetch_rejects_iff)
  have both_rej: "fetchBoth pDice pCoinflip parseLog mountedDice mountedCoinflip = Rejected \<longleftrightarrow>
      getBlockNumber pDice = None \<or> getBlockNumber pCoinflip = None"
    by (rule fetchBoth_Rejected_iff)
  have both_res: "getBlockNumber pDice = Some LD \<and> getBlockNumber pCoinflip = Some LC \<longrightarrow>
      fetchBoth pDice pCoinflip parseLog mountedDice mountedCoinflip =
        Resolved
          (List.map_filter (decodeOne pDice parseLog dice)
             (snd (scanChunks pDice mountedDice DICE_CONTRACT_ADDRESS LD)))
          (List.map_filter (decodeOne pCoinflip parseLog coinflip)
             (snd (scanChunks pCoinflip mountedCoinflip COINFLIP_CONTRACT_ADDRESS LC)))"
    using fetchBoth_Resolved [of pDice LD pCoinflip LC parseLog mountedDice mountedCoinflip]
    by blast
  have settle: "historySettle m Rejected st
      = st\<lparr>error := Some ''Failed to fetch events'', loading := False\<rparr>"
    by (simp add: historySettle_def)
  have shown: "render (historySettle m Rejected st) = ErrorView"
    by (simp add: historySettle_def render_def)
  have banner: "bannerText (render (historySettle m Rejected st)) = Some ''Error''"
    by (simp add: shown bannerText_def)
  show ?thesis
    by (intro conjI scan thrown answered loop none some dropped resolves rejects both_rej
        both_res settle shown banner)
qed

theorem best_effort_error_handling_witness:
  "scanChunks flakyProvider (\<lambda>i. True) DICE_CONTRACT_ADDRESS 2000 =
     ([(DICE_CONTRACT_ADDRESS, 1550, 2000), (DICE_CONTRACT_ADDRESS, 1100, 1550),
       (DICE_CONTRACT_ADDRESS, 650, 1100), (DICE_CONTRACT_ADDRESS, 200, 650),
       (DICE_CONTRACT_ADDRESS, 0, 200)],
      [exampleLog 1990 ''0xa'', exampleLog 700 ''0xc'', exampleLog 300 ''0xd'',
       exampleLog 100 ''0xe'']) \<and>
   getLogs flakyProvider DICE_CONTRACT_ADDRESS (fst (chunkRange 2000 0 1))
     (snd (chunkRange 2000 0 1)) = None \<and>
   chunkLogs flakyProvider DICE_CONTRACT_ADDRESS 2000 0 1 = [] \<and>
   getLogs flakyProvider DICE_CONTRACT_ADDRESS (fst (chunkRange 2000 0 0))
     (snd (chunkRange 2000 0 0)) = Some [exampleLog 1990 ''0xa''] \<and>
   chunkLogs flakyProvider DICE_CONTRACT_ADDRESS 2000 0 0 = [exampleLog 1990 ''0xa''] \<and>
   flakyDecoder (exampleLog 700 ''0xc'') = ParseThrows \<and>
   decodeOne flakyProvider flakyDecoder dice (exampleLog 700 ''0xc'') = None \<and>
   getBlock flakyProvider (log_blockNumber (exampleLog 300 ''0xd'')) = BlockNull \<and>
   decodeOne flakyProvider flakyDecoder dice (exampleLog 300 ''0xd'') = None \<and>
   decodeOne flakyProvider flakyDecoder dice (exampleLog 1990 ''0xa'')
     = Some (makeEvent (exampleLog 1990 ''0xa'') (Some (exampleArgs ''0xDEF''))
         \<lparr>block_timestamp = 1990\<rparr> dice) \<and>
   parseLoop flakyProvider flakyDecoder dice
     ([exampleLog 1990 ''0xa''] @ exampleLog 700 ''0xc'' # [exampleLog 100 ''0xe'']) []
     = parseLoop flakyProvider flakyDecoder dice
         ([exampleLog 1990 ''0xa''] @ [exampleLog 100 ''0xe'']) [] \<and>
   fetchEventsForContract flakyProvider flakyDecoder (\<lambda>i. True) DICE_CONTRACT_ADDRESS dice
     = Some [makeEvent (exampleLog 1990 ''0xa'') (Some (exampleArgs ''0xDEF''))
               \<lparr>block_timestamp = 1990\<rparr> dice,
             makeEvent (exampleLog 100 ''0xe'') (Some (exampleArgs ''0xDEF''))
               \<lparr>block_timestamp = 100\<rparr> dice] \<and>
   fetchBoth flakyProvider flakyProvider flakyDecoder (\<lambda>i. True) (\<lambda>i. True)
     = Resolved
         [makeEvent (exampleLog 1990 ''0xa'') (Some (exampleArgs ''0xDEF''))
            \<lparr>block_timestamp = 1990\<rparr> dice,
          makeEvent (exampleLog 100 ''0xe'') (Some (exampleArgs ''0xDEF''))
            \<lparr>block_timestamp = 100\<rparr> dice] [] \<and>
   fetchBoth flakyProvider (flakyProvider\<lparr>getBlockNumber := None\<rparr>) flakyDecoder
     (\<lambda>i. True) (\<lambda>i. True) = Rejected \<and>
   historySettle True Rejected initialState
     = \<lparr>events = [], loading = False, error = Some ''Failed to fetch events''\<rparr> \<and>
   bannerText (render (historySettle True Rejected initialState)) = Some ''Error''"
proof -
  let ?down = "flakyProvider\<lparr>getBlockNumber := None\<rparr>"
  let ?ev1990 = "makeEvent (exampleLog 1990 ''0xa'') (Some (exampleArgs ''0xDEF''))
    \<lparr>block_timestamp = 1990\<rparr> dice"
  let ?ev100 = "makeEvent (exampleLog 100 ''0xe'') (Some (exampleArgs ''0xDEF''))
    \<lparr>block_timestamp = 100\<rparr> dice"
  note skipped = best_effort_error_handling [where isMounted = "\<lambda>i. True" and p = flakyProvider
      and a = DICE_CONTRACT_ADDRESS and L = 2000 and s = 0 and j = 1
      and parseLog = flakyDecoder and lg = "exampleLog 700 ''0xc''" and gt = dice
      and before = "[exampleLog 1990 ''0xa'']" and after = "[exampleLog 100 ''0xe'']"
      and pDice = flakyProvider and pCoinflip = ?down
      and mountedDice = "\<lambda>i. True" and mountedCoinflip = "\<lambda>i. True"
      and m = True and st = initialState]
  note kept = best_effort_error_handling [where isMounted = "\<lambda>i. True" and p = flakyProvider
      and a = DICE_CONTRACT_ADDRESS and L = 2000 and s = 0 and j = 0
      and logs = "[exampleLog 1990 ''0xa'']"
      and parseLog = flakyDecoder and lg = "exampleLog 1990 ''0xa''" and gt = dice
      and parsedLog = "Some (exampleArgs ''0xDEF'')" and block = "\<lparr>block_timestamp = 1990\<rparr>"
      and pDice = flakyProvider and pCoinflip = flakyProvider and LD = 2000 and LC = 2000
      and mountedDice = "\<lambda>i. True" and mountedCoinflip = "\<lambda>i. True"]
  note unfound = best_effort_error_handling [where p = flakyProvider
      and parseLog = flakyDecoder and lg = "exampleLog 300 ''0xd''" and gt = dice]
  have thrown: "getLogs flakyProvider DICE_CONTRACT_ADDRESS (fst (chunkRange 2000 0 1))
     (snd (chunkRange 2000 0 1)) = None"
    by (simp add: flakyProvider_def chunkRange_def MAX_CHUNK_SIZE_def)
  have answered: "getLogs flakyProvider DICE_CONTRACT_ADDRESS (fst (chunkRange 2000 0 0))
     (snd (chunkRange 2000 0 0)) = Some [exampleLog 1990 ''0xa'']"
    by code_simp
  have undecoded: "flakyDecoder (exampleLog 700 ''0xc'') = ParseThrows"
    by (simp add: flakyDecoder_def exampleLog_def)
  have decoded: "flakyDecoder (exampleLog 1990 ''0xa'') = ParseReturns (Some (exampleArgs ''0xDEF''))"
    by (simp add: flakyDecoder_def exampleLog_def decodeAs_def)
  have found: "getBlock flakyProvider (log_blockNumber (exampleLog 1990 ''0xa''))
      = BlockFound \<lparr>block_timestamp = 1990\<rparr>"
    by (simp add: flakyProvider_def exampleLog_def)
  have null: "getBlock flakyProvider (log_blockNumber (exampleLog 300 ''0xd'')) = BlockNull"
    by (simp add: flakyProvider_def exampleLog_def)
  have up: "getBlockNumber flakyProvider = Some 2000" by (simp add: flakyProvider_def)
  have down: "getBlockNumber ?down = None" by simp
  have scanned:
    "(map (\<lambda>j. (DICE_CONTRACT_ADDRESS, chunkRange 2000 (max (2000 - TOTAL_BLOCKS_TO_CHECK) 0) j))
        [0..chunksFor 2000 - 1],
      concat (map (chunkLogs flakyProvider DICE_CONTRACT_ADDRESS 2000
        (max (2000 - TOTAL_BLOCKS_TO_CHECK) 0)) [0..chunksFor 2000 - 1])) =
     ([(DICE_CONTRACT_ADDRESS, 1550, 2000), (DICE_CONTRACT_ADDRESS, 1100, 1550),
       (DICE_CONTRACT_ADDRESS, 650, 1100), (DICE_CONTRACT_ADDRESS, 200, 650),
       (DICE_CONTRACT_ADDRESS, 0, 200)],
      [exampleLog 1990 ''0xa'', exampleLog 700 ''0xc'', exampleLog 300 ''0xd'',
       exampleLog 100 ''0xe''])"
    by code_simp
  have c1: "scanChunks flakyProvider (\<lambda>i. True) DICE_CONTRACT_ADDRESS 2000 =
     ([(DICE_CONTRACT_ADDRESS, 1550, 2000), (DICE_CONTRACT_ADDRESS, 1100, 1550),
       (DICE_CONTRACT_ADDRESS, 650, 1100), (DICE_CONTRACT_ADDRESS, 200, 650),
       (DICE_CONTRACT_ADDRESS, 0, 200)],
      [exampleLog 1990 ''0xa'', exampleLog 700 ''0xc'', exampleLog 300 ''0xd'',
       exampleLog 100 ''0xe''])"
    using skipped [THEN conjunct1] scanned by simp
  have c2: "chunkLogs flakyProvider DICE_CONTRACT_ADDRESS 2000 0 1 = []"
    using skipped thrown by blast
  have c3: "chunkLogs flakyProvider DICE_CONTRACT_ADDRESS 2000 0 0 = [exampleLog 1990 ''0xa'']"
    using kept answered by blast
  have c4: "decodeOne flakyProvider flakyDecoder dice (exampleLog 700 ''0xc'') = None"
    using skipped undecoded by blast
  have c5: "decodeOne flakyProvider flakyDecoder dice (exampleLog 300 ''0xd'') = None"
    using unfound null by blast
  have c6: "decodeOne flakyProvider flakyDecoder dice (exampleLog 1990 ''0xa'') = Some ?ev1990"
    using kept decoded found by blast
  have c7: "parseLoop flakyProvider flakyDecoder dice
     ([exampleLog 1990 ''0xa''] @ exampleLog 700 ''0xc'' # [exampleLog 100 ''0xe'']) []
     = parseLoop flakyProvider flakyDecoder dice
         ([exampleLog 1990 ''0xa''] @ [exampleLog 100 ''0xe'']) []"
    using skipped undecoded by blast
  have listed: "List.map_filter (decodeOne flakyProvider flakyDecoder dice)
      [exampleLog 1990 ''0xa'', exampleLog 700 ''0xc'', exampleLog 300 ''0xd'',
       exampleLog 100 ''0xe''] = [?ev1990, ?ev100]"
    by code_simp
  have "fetchEventsForContract flakyProvider flakyDecoder (\<lambda>i. True) DICE_CONTRACT_ADDRESS dice
      = Some (List.map_filter (decodeOne flakyProvider flakyDecoder dice)
          (snd (scanChunks flakyProvider (\<lambda>i. True) DICE_CONTRACT_ADDRESS 2000)))"
    using skipped up by blast
  then have c8: "fetchEventsForContract flakyProvider flakyDecoder (\<lambda>i. True)
      DICE_CONTRACT_ADDRESS dice = Some [?ev1990, ?ev100]"
    by (simp only: c1 snd_conv listed)
  have quiet: "scanChunks flakyProvider (\<lambda>i. True) COINFLIP_CONTRACT_ADDRESS 2000 =
     ([(COINFLIP_CONTRACT_ADDRESS, 1550, 2000), (COINFLIP_CONTRACT_ADDRESS, 1100, 1550),
       (COINFLIP_CONTRACT_ADDRESS, 650, 1100), (COINFLIP_CONTRACT_ADDRESS, 200, 650),
       (COINFLIP_CONTRACT_ADDRESS, 0, 200)], [])"
    by code_simp
  have empty: "List.map_filter (decodeOne flakyProvider flakyDecoder coinflip) [] = []"
    by simp
  have "fetchBoth flakyProvider flakyProvider flakyDecoder (\<lambda>i. True) (\<lambda>i. True) =
      Resolved
        (List.map_filter (decodeOne flakyProvider flakyDecoder dice)
           (snd (scanChunks flakyProvider (\<lambda>i. True) DICE_CONTRACT_ADDRESS 2000)))
        (List.map_filter (decodeOne flakyProvider flakyDecoder coinflip)
           (snd (scanChunks flakyProvider (\<lambda>i. True) COINFLIP_CONTRACT_ADDRESS 2000)))"
    using kept up by blast
  then have c9: "fetchBoth flakyProvider flakyProvider flakyDecoder (\<lambda>i. True) (\<lambda>i. True)
      = Resolved [?ev1990, ?ev100] []"
    by (simp only: c1 snd_conv listed quiet empty)
  have c10: "fetchBoth flakyProvider ?down flakyDecoder (\<lambda>i. True) (\<lambda>i. True) = Rejected"
    using skipped down by blast
  have c11: "historySettle True Rejected initialState
     = \<lparr>events = [], loading = False, error = Some ''Failed to fetch events''\<rparr>"
    using skipped by (simp add: initialState_def)
  have c12: "bannerText (render (historySettle True Rejected initialState)) = Some ''Error''"
    using skipped by blast
  show ?thesis
    by (intro conjI c1 thrown c2 answered c3 undecoded c4 null c5 c6 c7 c8 c9 c10 c11 c12)
qed

subsection \<open>The ranges of the chunk requests\<close>

lemma chunksFor_less_iff:
  "j < chunksFor L \<longleftrightarrow> j * 450 < L - max (L - 2000) 0"
  unfolding chunksFor_def ceilDiv_eq TOTAL_BLOCKS_TO_CHECK_def MAX_CHUNK_SIZE_def
  by linarith

lemma chunk_within_window:
  assumes "0 \<le> j" "j < chunksFor L"
  shows "max (L - 2000) 0 \<le> fst (chunkRange L (max (L - 2000) 0) j) \<and>
         fst (chunkRange L (max (L - 2000) 0) j) \<le> snd (chunkRange L (max (L - 2000) 0) j) \<and>
         snd (chunkRange L (max (L - 2000) 0) j) \<le> L"
  using assms unfolding chunksFor_less_iff chunkRange_def MAX_CHUNK_SIZE_def
  by auto

lemma window_covered:
  assumes "1 \<le> L" "max (L - 2000) 0 \<le> b" "b \<le> L"
  shows "\<exists>j. 0 \<le> j \<and> j < chunksFor L \<and> b \<in> blocksOf (chunkRange L (max (L - 2000) 0) j)"
proof (cases "b = max (L - 2000) 0")
  case True
  let ?j = "chunksFor L - 1"
  have pos: "0 < chunksFor L" using assms(1) unfolding chunksFor_less_iff by auto
  have "\<not> chunksFor L < chunksFor L" by simp
  then have up: "L - max (L - 2000) 0 \<le> chunksFor L * 450"
    unfolding chunksFor_less_iff by linarith
  have lo: "chunksFor L * 450 - 450 < L - max (L - 2000) 0"
    using chunksFor_less_iff [of ?j L] by (simp add: left_diff_distrib)
  have jj: "?j * 450 = chunksFor L * 450 - 450"
    by (simp add: left_diff_distrib)
  have "b \<in> blocksOf (chunkRange L (max (L - 2000) 0) ?j)"
    unfolding blocksOf_def chunkRange_def MAX_CHUNK_SIZE_def fst_conv snd_conv atLeastAtMost_iff jj
    using up lo True by linarith
  then show ?thesis
    using pos by (intro exI [of _ ?j]) simp
next
  case False
  let ?j = "(L - b) div 450"
  have gt: "max (L - 2000) 0 < b" using False assms(2) by linarith
  have nonneg: "0 \<le> ?j" using assms(3) by simp
  have split: "L - b = ?j * 450 + (L - b) mod 450" by simp
  have m0: "0 \<le> (L - b) mod 450" and m1: "(L - b) mod 450 < 450" by simp_all
  have less: "?j < chunksFor L"
    unfolding chunksFor_less_iff using split m0 gt by linarith
  have "b \<in> blocksOf (chunkRange L (max (L - 2000) 0) ?j)"
    unfolding blocksOf_def chunkRange_def MAX_CHUNK_SIZE_def fst_conv snd_conv atLeastAtMost_iff
    using split m0 m1 gt by linarith
  then show ?thesis
    using nonneg less by (intro exI [of _ ?j]) simp
qed

lemma adjacent_chunks_share_block:
  assumes "0 \<le> j" "j + 1 < chunksFor L"
  shows "L - (j + 1) * 450 \<in>
     blocksOf (chunkRange L (max (L - 2000) 0) j) \<inter>
     blocksOf (chunkRange L (max (L - 2000) 0) (j + 1))"
  using assms unfolding chunksFor_less_iff
  by (auto simp: blocksOf_def chunkRange_def MAX_CHUNK_SIZE_def)

text \<open>
  Claim C6. The claim asks for pairwise disjoint request ranges of 450 blocks each. At the
  latest block 2000 the scan sends the five requests below: the ranges lie in the window
  from block 0 to block 2000 and cover it, but the first two both contain block 1550, and
  the first holds 451 blocks.
\<close>

theorem chunk_ranges_overlap:
  "map snd (fst (scanChunks p (\<lambda>i. True) a 2000))
     = [(1550, 2000), (1100, 1550), (650, 1100), (200, 650), (0, 200)] \<and>
   blocksOf (1550, 2000) \<inter> blocksOf (1100, 1550) = {1550} \<and>
   card (blocksOf (1550, 2000)) = 451"
proof -
  have "map snd (fst (scanChunks p (\<lambda>i. True) a 2000))
     = [(1550, 2000), (1100, 1550), (650, 1100), (200, 650), (0, 200)]"
    by (simp add: scanChunks_closed chunksFor_2000 upto_0_4 chunkRange_def
        TOTAL_BLOCKS_TO_CHECK_def MAX_CHUNK_SIZE_def)
  moreover have "blocksOf (1550, 2000) \<inter> blocksOf (1100, 1550) = {1550}"
    by (auto simp: blocksOf_def)
  moreover have "card (blocksOf (1550, 2000)) = 451"
    by (simp add: blocksOf_def)
  ultimately show ?thesis by simp
qed

subsection \<open>Transaction hashes in the events list\<close>

lemma uniqueHashes_sortAndCap: "uniqueHashes xs \<Longrightarrow> uniqueHashes (sortAndCap xs)"
proof -
  assume u: "uniqueHashes xs"
  let ?s = "sort_key (\<lambda>e. - blockNumber e) xs"
  have "mset (map transactionHash ?s) = mset (map transactionHash xs)"
    by simp
  then have "distinct (map transactionHash ?s)"
    using u unfolding uniqueHashes_def by (metis mset_eq_imp_distinct_iff)
  then have "distinct (take 12 (map transactionHash ?s))"
    by (rule distinct_take)
  then show ?thesis
    by (simp add: uniqueHashes_def sortAndCap_spec spec_sortedTruncated_def take_map)
qed

lemma uniqueHashes_eventsUpdater:
  "uniqueHashes prev \<Longrightarrow> uniqueHashes (eventsUpdater e prev)"
proof (cases "some (\<lambda>r. transactionHash r = transactionHash e) prev")
  case True
  assume "uniqueHashes prev"
  with True show ?thesis by (simp add: eventsUpdater_def)
next
  case False
  assume u: "uniqueHashes prev"
  from False have "transactionHash e \<notin> transactionHash ` set prev"
    by (auto simp: some_iff)
  with u have "uniqueHashes (e # prev)" by (simp add: uniqueHashes_def)
  then show ?thesis
    using False by (simp add: eventsUpdater_def uniqueHashes_sortAndCap)
qed

text \<open>
  Claim C2. The claim asks for an events list without two records of one transaction hash.
  With one dice log in block 1550 and the latest block 2000, the historical fetch stores
  two records with the hash of that log; and two decoded events of one hash, one from each
  contract, are both stored.
\<close>

theorem historical_merge_keeps_duplicates:
  "map transactionHash
     (events (runHistory (nodeProvider 2000 (diceChain [exampleLog 1550 ''0xaa'']))
        (nodeProvider 2000 (diceChain [exampleLog 1550 ''0xaa'']))
        (decodeAs ''0xABC'') (\<lambda>i. True) (\<lambda>i. True) True True (Some ''0xabc'') initialState))
     = [''0xaa'', ''0xaa''] \<and>
   \<not> uniqueHashes
     (events (runHistory (nodeProvider 2000 (diceChain [exampleLog 1550 ''0xaa'']))
        (nodeProvider 2000 (diceChain [exampleLog 1550 ''0xaa'']))
        (decodeAs ''0xABC'') (\<lambda>i. True) (\<lambda>i. True) True True (Some ''0xabc'') initialState)) \<and>
   \<not> uniqueHashes
     (events (historySettle True
        (Resolved [exampleEvent 5 ''0xa''] [exampleEvent 5 ''0xa'']) initialState))"
  by code_simp

subsection \<open>State updates after teardown\<close>

lemma events_guarded_after_teardown:
  "events (historySettle False r st) = events st \<and>
   handleLog p parseLog currentAccount False lg gt st = st"
  by (cases r)
     (simp_all add: historySettle_def handleLog_def Let_def
        split: parseResult.splits blockResult.splits)

text \<open>
  Claim C8. The claim asks that no state update happens once the liveness flag is false.
  A historical fetch that settles after teardown still changes the state: resolved, it
  sets loading to false; rejected, it sets the error message and loading to false.
\<close>

theorem settle_after_teardown_updates_state:
  "fst (historyEffect True (Some ''0xabc'') initialState)
     = \<lparr>events = [], loading = True, error = None\<rparr> \<and>
   historySettle False (Resolved diceEvents coinflipEvents)
     \<lparr>events = [], loading = True, error = None\<rparr>
     = \<lparr>events = [], loading = False, error = None\<rparr> \<and>
   historySettle False Rejected \<lparr>events = [], loading = True, error = None\<rparr>
     = \<lparr>events = [], loading = False, error = Some ''Failed to fetch events''\<rparr>"
  by (simp add: historyEffect_def notReady_def initialState_def historySettle_def)

subsection \<open>The historical fetch and the connected account\<close>

lemma set_map_filter: "set (List.map_filter f xs) = {y. \<exists>x\<in>set xs. f x = Some y}"
  by (induction xs) (auto simp: List.map_filter_simps split: option.splits)

lemma fetch_includes_collected:
  assumes latest: "getBlockNumber p = Some L"
    and lg: "lg \<in> set (snd (scanChunks p isMounted a L))"
    and dec: "parseLog lg = ParseReturns parsedLog"
    and blk: "getBlock p (log_blockNumber lg) = BlockFound b"
  shows "\<exists>evs. fetchEventsForContract p parseLog isMounted a gt = Some evs \<and>
           makeEvent lg parsedLog b gt \<in> set evs"
proof -
  have "decodeOne p parseLog gt lg = Some (makeEvent lg parsedLog b gt)"
    using dec blk by (rule decodeOne_Some)
  then have "makeEvent lg parsedLog b gt
      \<in> set (List.map_filter (decodeOne p parseLog gt) (snd (scanChunks p isMounted a L)))"
    using lg by (auto simp: set_map_filter)
  then show ?thesis
    using fetch_resolves [OF latest, of parseLog isMounted a gt] by simp
qed

lemma set_sortAndCap_short:
  "length xs \<le> 12 \<Longrightarrow> set (sortAndCap xs) = set xs"
  by (simp add: sortAndCap_spec spec_sortedTruncated_def)

lemma fetchBoth_Resolved_iff:
  "fetchBoth pDice pCoinflip parseLog mD mC = Resolved d c \<longleftrightarrow>
   fetchEventsForContract pDice parseLog mD DICE_CONTRACT_ADDRESS dice = Some d \<and>
   fetchEventsForContract pCoinflip parseLog mC COINFLIP_CONTRACT_ADDRESS coinflip = Some c"
  by (auto simp: fetchBoth_def split: option.splits)

lemma runHistory_ready:
  "\<not> notReady isConnected currentAccount \<Longrightarrow>
   runHistory pDice pCoinflip parseLog mD mC mountedAtSettle isConnected currentAccount st =
     historySettle mountedAtSettle (fetchBoth pDice pCoinflip parseLog mD mC)
       (st\<lparr>loading := True, error := None\<rparr>)"
  by (simp add: runHistory_def historyEffect_def)

lemma runHistory_events:
  "\<not> notReady isConnected currentAccount \<Longrightarrow>
   fetchBoth pDice pCoinflip parseLog mD mC = Resolved d c \<Longrightarrow>
   events (runHistory pDice pCoinflip parseLog mD mC True isConnected currentAccount st)
     = sortAndCap (d @ c)"
  by (simp add: runHistory_ready historySettle_def)

lemma runHistory_includes:
  assumes ready: "\<not> notReady isConnected currentAccount"
    and res: "fetchBoth pDice pCoinflip parseLog mD mC = Resolved d c"
    and short: "length (d @ c) \<le> 12"
    and which: "(p, isMounted, a, gt) = (pDice, mD, DICE_CONTRACT_ADDRESS, dice) \<or>
                (p, isMounted, a, gt) = (pCoinflip, mC, COINFLIP_CONTRACT_ADDRESS, coinflip)"
    and latest: "getBlockNumber p = Some L"
    and lg: "lg \<in> set (snd (scanChunks p isMounted a L))"
    and dec: "parseLog lg = ParseReturns parsedLog"
    and blk: "getBlock p (log_blockNumber lg) = BlockFound b"
  shows "makeEvent lg parsedLog b gt
      \<in> set (events (runHistory pDice pCoinflip parseLog mD mC True isConnected currentAccount st))"
proof -
  obtain evs where evs: "fetchEventsForContract p parseLog isMounted a gt = Some evs"
      "makeEvent lg parsedLog b gt \<in> set evs"
    using fetch_includes_collected [of p L lg isMounted a parseLog parsedLog b gt]
      latest lg dec blk by blast
  have "evs = d \<or> evs = c"
    using which res evs(1) by (auto simp: fetchBoth_Resolved_iff)
  then have "makeEvent lg parsedLog b gt \<in> set (d @ c)"
    using evs(2) by auto
  then show ?thesis
    using runHistory_events [OF ready res, of st] set_sortAndCap_short [OF short] by simp
qed

text \<open>
  Claim C10, as stated, fails: with thirteen decoded logs in the scanned window, the record
  of the oldest one is not in the initial list.
\<close>

theorem every_decoded_log_included_counterexample:
  "decodeAs ''0xDEF'' (exampleLog 1988 ''0x01'') = ParseReturns (Some (exampleArgs ''0xDEF'')) \<and>
   exampleLog 1988 ''0x01''
     \<in> set (snd (scanChunks (nodeProvider 2000 (diceChain thirteenLogs)) (\<lambda>i. True)
          DICE_CONTRACT_ADDRESS 2000)) \<and>
   getBlock (nodeProvider 2000 (diceChain thirteenLogs))
     (log_blockNumber (exampleLog 1988 ''0x01'')) = BlockFound \<lparr>block_timestamp = 1988\<rparr> \<and>
   makeEvent (exampleLog 1988 ''0x01'') (Some (exampleArgs ''0xDEF''))
     \<lparr>block_timestamp = 1988\<rparr> dice
     \<notin> set (events (runHistory (nodeProvider 2000 (diceChain thirteenLogs))
          (nodeProvider 2000 (diceChain thirteenLogs)) (decodeAs ''0xDEF'')
          (\<lambda>i. True) (\<lambda>i. True) True True (Some ''0xabc'') initialState))"
  by code_simp

text \<open>
  Claim C10, amended. The historical fetch does not filter by the connected account: every
  log the chunk scan collected that is decoded and whose block is found yields a record in
  that contract's fetched list, whatever its player address. When the fetch settles while
  the component is mounted, the initial list is the first 12 of the two fetched lists
  merged in descending order of block number; with at most 12 fetched records it holds
  every one of them, so it can hold bets of other players. Only the live handler
  restricts what it adds: a decoded log of another player leaves the state as it is, and
  every log that changes the list is a log of the connected account.
\<close>

theorem history_unfiltered_up_to_cap:
  "(getBlockNumber p = Some L \<and> lg \<in> set (snd (scanChunks p isMounted a L)) \<and>
    parseLog lg = ParseReturns (Some args) \<and>
    getBlock p (log_blockNumber lg) = BlockFound b \<longrightarrow>
      (\<exists>evs. fetchEventsForContract p parseLog isMounted a gt = Some evs \<and>
         makeEvent lg (Some args) b gt \<in> set evs)) \<and>
   (\<not> notReady isConnected currentAccount \<and>
    fetchBoth pDice pCoinflip parseLog mountedDice mountedCoinflip
      = Resolved diceEvents coinflipEvents \<longrightarrow>
      events (runHistory pDice pCoinflip parseLog mountedDice mountedCoinflip True
                isConnected currentAccount st)
        = spec_sortedTruncated (diceEvents @ coinflipEvents) \<and>
      (length (diceEvents @ coinflipEvents) \<le> 12 \<longrightarrow>
         set (events (runHistory pDice pCoinflip parseLog mountedDice mountedCoinflip True
                isConnected currentAccount st))
           = set diceEvents \<union> set coinflipEvents)) \<and>
   (\<not> notReady isConnected currentAccount \<and>
    fetchBoth pDice pCoinflip parseLog mountedDice mountedCoinflip
      = Resolved diceEvents coinflipEvents \<and>
    length (diceEvents @ coinflipEvents) \<le> 12 \<and>
    ((p, isMounted, a, gt) = (pDice, mountedDice, DICE_CONTRACT_ADDRESS, dice) \<or>
     (p, isMounted, a, gt) = (pCoinflip, mountedCoinflip, COINFLIP_CONTRACT_ADDRESS, coinflip)) \<and>
    getBlockNumber p = Some L \<and> lg \<in> set (snd (scanChunks p isMounted a L)) \<and>
    parseLog lg = ParseReturns (Some args) \<and>
    getBlock p (log_blockNumber lg) = BlockFound b \<longrightarrow>
      makeEvent lg (Some args) b gt
        \<in> set (events (runHistory pDice pCoinflip parseLog mountedDice mountedCoinflip True
                   isConnected currentAccount st))) \<and>
   (parseLog' lg' = ParseReturns (Some args') \<and>
    toLowerCase (args_player args') \<noteq> toLowerCase account' \<longrightarrow>
      handleLog q parseLog' account' m lg' gt' st' = st') \<and>
   (events (handleLog q parseLog' account' m lg' gt' st') \<noteq> events st' \<longrightarrow>
      (\<exists>args''. parseLog' lg' = ParseReturns (Some args'') \<and>
         toLowerCase (args_player args'') = toLowerCase account'))"
proof (intro conjI impI)
  assume "getBlockNumber p = Some L \<and> lg \<in> set (snd (scanChunks p isMounted a L)) \<and>
    parseLog lg = ParseReturns (Some args) \<and>
    getBlock p (log_blockNumber lg) = BlockFound b"
  then show "\<exists>evs. fetchEventsForContract p parseLog isMounted a gt = Some evs \<and>
         makeEvent lg (Some args) b gt \<in> set evs"
    using fetch_includes_collected [of p L lg isMounted a parseLog "Some args" b gt] by blast
next
  assume "\<not> notReady isConnected currentAccount \<and>
    fetchBoth pDice pCoinflip parseLog mountedDice mountedCoinflip
      = Resolved diceEvents coinflipEvents"
  then show "events (runHistory pDice pCoinflip parseLog mountedDice mountedCoinflip True
                isConnected currentAccount st)
        = spec_sortedTruncated (diceEvents @ coinflipEvents)"
    using runHistory_events [of isConnected currentAccount pDice pCoinflip parseLog mountedDice
        mountedCoinflip diceEvents coinflipEvents st]
    by (simp add: sortAndCap_spec)
next
  assume "\<not> notReady isConnected currentAccount \<and>
    fetchBoth pDice pCoinflip parseLog mountedDice mountedCoinflip
      = Resolved diceEvents coinflipEvents"
    and "length (diceEvents @ coinflipEvents) \<le> 12"
  then show "set (events (runHistory pDice pCoinflip parseLog mountedDice mountedCoinflip True
                isConnected currentAccount st))
           = set diceEvents \<union> set coinflipEvents"
    using runHistory_events [of isConnected currentAccount pDice pCoinflip parseLog mountedDice
        mountedCoinflip diceEvents coinflipEvents st]
      set_sortAndCap_short [of "diceEvents @ coinflipEvents"]
    by simp
next
  assume "\<not> notReady isConnected currentAccount \<and>
    fetchBoth pDice pCoinflip parseLog mountedDice mountedCoinflip
      = Resolved diceEvents coinflipEvents \<and>
    length (diceEvents @ coinflipEvents) \<le> 12 \<and>
    ((p, isMounted, a, gt) = (pDice, mountedDice, DICE_CONTRACT_ADDRESS, dice) \<or>
     (p, isMounted, a, gt) = (pCoinflip, mountedCoinflip, COINFLIP_CONTRACT_ADDRESS, coinflip)) \<and>
    getBlockNumber p = Some L \<and> lg \<in> set (snd (scanChunks p isMounted a L)) \<and>
    parseLog lg = ParseReturns (Some args) \<and>
    getBlock p (log_blockNumber lg) = BlockFound b"
  then show "makeEvent lg (Some args) b gt
        \<in> set (events (runHistory pDice pCoinflip parseLog mountedDice mountedCoinflip True
                   isConnected currentAccount st))"
    using runHistory_includes [of isConnected currentAccount pDice pCoinflip parseLog
        mountedDice mountedCoinflip diceEvents coinflipEvents p isMounted a gt L lg "Some args" b st]
    by blast
next
  assume "parseLog' lg' = ParseReturns (Some args') \<and>
    toLowerCase (args_player args') \<noteq> toLowerCase account'"
  then show "handleLog q parseLog' account' m lg' gt' st' = st'"
    using handleLog_mismatch [of parseLog' lg' "Some args'" account'] by simp
next
  assume "events (handleLog q parseLog' account' m lg' gt' st') \<noteq> events st'"
  then have "handleLog q parseLog' account' m lg' gt' st' \<noteq> st'" by auto
  then show "\<exists>args''. parseLog' lg' = ParseReturns (Some args'') \<and>
         toLowerCase (args_player args'') = toLowerCase account'"
    by (rule handleLog_changes_only_matching)
qed

theorem history_unfiltered_up_to_cap_witness:
  "fetchBoth (nodeProvider 2000 (diceChain [exampleLog 1990 ''0xa'']))
     (nodeProvider 2000 (diceChain [exampleLog 1990 ''0xa''])) (decodeAs ''0xDEF'')
     (\<lambda>i. True) (\<lambda>i. True)
     = Resolved [makeEvent (exampleLog 1990 ''0xa'') (Some (exampleArgs ''0xDEF''))
         \<lparr>block_timestamp = 1990\<rparr> dice] [] \<and>
   events (runHistory (nodeProvider 2000 (diceChain [exampleLog 1990 ''0xa'']))
     (nodeProvider 2000 (diceChain [exampleLog 1990 ''0xa''])) (decodeAs ''0xDEF'')
     (\<lambda>i. True) (\<lambda>i. True) True True (Some ''0xabc'') initialState)
     = [makeEvent (exampleLog 1990 ''0xa'') (Some (exampleArgs ''0xDEF''))
         \<lparr>block_timestamp = 1990\<rparr> dice] \<and>
   makeEvent (exampleLog 1990 ''0xa'') (Some (exampleArgs ''0xDEF''))
       \<lparr>block_timestamp = 1990\<rparr> dice
     \<in> set (events (runHistory (nodeProvider 2000 (diceChain [exampleLog 1990 ''0xa'']))
         (nodeProvider 2000 (diceChain [exampleLog 1990 ''0xa''])) (decodeAs ''0xDEF'')
         (\<lambda>i. True) (\<lambda>i. True) True True (Some ''0xabc'') initialState)) \<and>
   player (makeEvent (exampleLog 1990 ''0xa'') (Some (exampleArgs ''0xDEF''))
     \<lparr>block_timestamp = 1990\<rparr> dice) = Some ''0xdef'' \<and>
   toLowerCase ''0xabc'' = ''0xabc'' \<and>
   handleLog (nodeProvider 2000 (diceChain [exampleLog 1990 ''0xa''])) (decodeAs ''0xDEF'')
     ''0xabc'' True (exampleLog 1990 ''0xa'') dice initialState = initialState \<and>
   events (handleLog (nodeProvider 9 (diceChain [])) (decodeAs ''0xABC'') ''0xabc'' True
     (exampleLog 5 ''0xa'') dice initialState) \<noteq> events initialState \<and>
   toLowerCase (args_player (exampleArgs ''0xABC'')) = toLowerCase ''0xabc''"
proof -
  let ?p = "nodeProvider 2000 (diceChain [exampleLog 1990 ''0xa''])"
  let ?ev = "makeEvent (exampleLog 1990 ''0xa'') (Some (exampleArgs ''0xDEF''))
    \<lparr>block_timestamp = 1990\<rparr> dice"
  let ?run = "runHistory ?p ?p (decodeAs ''0xDEF'') (\<lambda>i. True) (\<lambda>i. True) True True
    (Some ''0xabc'') initialState"
  note history = history_unfiltered_up_to_cap [where p = ?p and L = 2000
      and isMounted = "\<lambda>i. True" and lg = "exampleLog 1990 ''0xa''"
      and a = DICE_CONTRACT_ADDRESS and parseLog = "decodeAs ''0xDEF''"
      and args = "exampleArgs ''0xDEF''" and b = "\<lparr>block_timestamp = 1990\<rparr>" and gt = dice
      and isConnected = True and currentAccount = "Some ''0xabc''"
      and pDice = ?p and pCoinflip = ?p
      and mountedDice = "\<lambda>i. True" and mountedCoinflip = "\<lambda>i. True"
      and diceEvents = "[?ev]" and coinflipEvents = "[]" and st = initialState
      and q = ?p and parseLog' = "decodeAs ''0xDEF''" and account' = "''0xabc''" and m = True
      and lg' = "exampleLog 1990 ''0xa''" and gt' = dice and st' = initialState
      and args' = "exampleArgs ''0xDEF''"]
  note live = history_unfiltered_up_to_cap [where q = "nodeProvider 9 (diceChain [])"
      and parseLog' = "decodeAs ''0xABC''" and account' = "''0xabc''" and m = True
      and lg' = "exampleLog 5 ''0xa''" and gt' = dice and st' = initialState]
  have ready: "\<not> notReady True (Some ''0xabc'')" by (simp add: notReady_def)
  have res: "fetchBoth ?p ?p (decodeAs ''0xDEF'') (\<lambda>i. True) (\<lambda>i. True) = Resolved [?ev] []"
    by code_simp
  have short: "length ([?ev] @ []) \<le> 12" by simp
  have latest: "getBlockNumber ?p = Some 2000" by (simp add: nodeProvider_def)
  have collected: "exampleLog 1990 ''0xa''
      \<in> set (snd (scanChunks ?p (\<lambda>i. True) DICE_CONTRACT_ADDRESS 2000))"
    by code_simp
  have decoded: "decodeAs ''0xDEF'' (exampleLog 1990 ''0xa'')
      = ParseReturns (Some (exampleArgs ''0xDEF''))"
    by (simp add: decodeAs_def)
  have found: "getBlock ?p (log_blockNumber (exampleLog 1990 ''0xa''))
      = BlockFound \<lparr>block_timestamp = 1990\<rparr>"
    by (simp add: nodeProvider_def exampleLog_def)
  have other: "toLowerCase (args_player (exampleArgs ''0xDEF'')) \<noteq> toLowerCase ''0xabc''"
    by (simp add: exampleArgs_def lower_DEF lower_abc)
  have "events ?run = spec_sortedTruncated ([?ev] @ [])"
    using history ready res by blast
  then have c2: "events ?run = [?ev]"
    by (simp add: spec_sortedTruncated_def)
  have c3: "?ev \<in> set (events ?run)"
    using history ready res short latest collected decoded found by blast
  have c4: "player ?ev = Some ''0xdef''"
    by (simp add: makeEvent_def exampleArgs_def lower_DEF)
  have c5: "handleLog ?p (decodeAs ''0xDEF'') ''0xabc'' True (exampleLog 1990 ''0xa'') dice
      initialState = initialState"
    using history decoded other by blast
  have c6: "events (handleLog (nodeProvider 9 (diceChain [])) (decodeAs ''0xABC'') ''0xabc'' True
     (exampleLog 5 ''0xa'') dice initialState) \<noteq> events initialState"
    by (simp add: handleLog_def decodeAs_def exampleArgs_def lower_ABC lower_abc nodeProvider_def
        exampleLog_def initialState_def eventsUpdater_def some_def sortAndCap_def slice0_def
        MAX_RESULTS_def)
  have "\<exists>args''. decodeAs ''0xABC'' (exampleLog 5 ''0xa'') = ParseReturns (Some args'') \<and>
      toLowerCase (args_player args'') = toLowerCase ''0xabc''"
    using live c6 by blast
  then have c7: "toLowerCase (args_player (exampleArgs ''0xABC'')) = toLowerCase ''0xabc''"
    by (simp add: decodeAs_def)
  show ?thesis
    by (intro conjI res c2 c3 c4 lower_abc c5 c6 c7)
qed

end
